theory Spec2Isabelle
  imports Main "HOL-Library.List_Lexorder"
begin

section \<open>Data model\<close>

text \<open>
  A leaf is a signed integer; a pat is a leaf or a nested group of pats; a flexagon is its
  ring of pats, first pat at the current vertex. The flexagon literal
  \<^verbatim>\<open>[[1, 2], 3, [4, 5], 6]\<close> of the tests is
  \<open>[Group [Leaf 1, Leaf 2], Leaf 3, Group [Leaf 4, Leaf 5], Leaf 6]\<close>.
\<close>

datatype pat = Leaf int | Group "pat list"

type_synonym Flexagon = "pat list"

text \<open>The result codes of a flex and the tagged error value \<^verbatim>\<open>{ reason, flexName }\<close>.\<close>

datatype FlexCode = UnknownFlex | CantApplyFlex

record FlexError =
  reason :: FlexCode
  flexName :: string

text \<open>
  \<^verbatim>\<open>isFlexError(result)\<close> tells the error of a \<^verbatim>\<open>Flexagon | FlexError\<close> from the
  flexagon; here the union is a sum type and the test reads its tag.
\<close>

definition isFlexError :: "FlexError + 'a \<Rightarrow> bool" where
  "isFlexError result = (case result of Inl err \<Rightarrow> True | Inr v \<Rightarrow> False)"

text \<open>
  The class \<^verbatim>\<open>Flex\<close> is used by the manager through two methods only, and both are
  taken as they are used: \<^verbatim>\<open>apply(flexagon): Flexagon | FlexError\<close>, which returns a new
  flexagon and leaves its argument alone, and \<^verbatim>\<open>createPattern(flexagon): Flexagon\<close>,
  whose result the manager hands to \<^verbatim>\<open>apply\<close> without a check. The flexagon type is a
  parameter: nothing in the manager looks inside a flexagon.
\<close>

record 'f Flex =
  Flex_apply :: "'f \<Rightarrow> FlexError + 'f"
  Flex_createPattern :: "'f \<Rightarrow> 'f"

text \<open>
  \<^verbatim>\<open>Flexes\<close> is an object indexed by flex name. It is kept as a list of (name, flex) in
  the order of its keys, which is the order \<^verbatim>\<open>checkForFlexes\<close> reports names in.
  \<open>lookupFlex\<close> finds the flexes stored in the object, with \<open>None\<close> for a name that
  is not stored.
\<close>

type_synonym 'f Flexes = "(string \<times> 'f Flex) list"

definition lookupFlex :: "'f Flexes \<Rightarrow> string \<Rightarrow> 'f Flex option" where
  "lookupFlex flexes nm = map_of flexes nm"

text \<open>
  The source reads \<^verbatim>\<open>this.allFlexes[flexName]\<close>, and on a plain object (the explorer's
  test builds its flex set as \<^verbatim>\<open>{}\<close>) that expression is \<^verbatim>\<open>undefined\<close> only for a name
  that is neither stored nor inherited from \<^verbatim>\<open>Object.prototype\<close>. For the inherited
  names below the source does not take the branch for an unknown flex: it calls
  \<^verbatim>\<open>apply\<close> on whatever the object inherits (\<^verbatim>\<open>constructor\<close> returns and overwrites
  the flexagon, \<^verbatim>\<open>__proto__\<close> throws). The model has no such values, so a statement
  that rests on a failed lookup is made for the flex strings of \<open>storedOrAbsent\<close> only:
  those whose flex name (the string without a final \<^verbatim>\<open>+\<close>) is stored in the set, or is
  no property of the object at all. There \<open>lookupFlex\<close> is the source's lookup.
\<close>

definition flexNameOf :: "string \<Rightarrow> string" where
  "flexNameOf flexStr =
     (if flexStr \<noteq> [] \<and> last flexStr = CHR ''+'' then butlast flexStr else flexStr)"

definition inheritedNames :: "string list" where
  "inheritedNames =
     [''constructor'', ''__defineGetter__'', ''__defineSetter__'', ''hasOwnProperty'',
      ''__lookupGetter__'', ''__lookupSetter__'', ''isPrototypeOf'', ''propertyIsEnumerable'',
      ''toString'', ''valueOf'', ''__proto__'', ''toLocaleString'']"

definition storedOrAbsent :: "'f Flexes \<Rightarrow> string \<Rightarrow> bool" where
  "storedOrAbsent flexes flexStr \<longleftrightarrow>
     lookupFlex flexes (flexNameOf flexStr) \<noteq> None \<or>
     flexNameOf flexStr \<notin> set inheritedNames"

section \<open>The flexagon manager (FlexagonManager.ts)\<close>

text \<open>
  Modelled from the spec: the class \<^verbatim>\<open>History\<close>, which the manager creates with
  \<^verbatim>\<open>new History(flexagon)\<close> and extends with \<^verbatim>\<open>history.add([flexStr], flexagon)\<close>. It
  is a list of steps (flex names applied, resulting flexagon) with a cursor that undo and
  redo move; the list starts with the original flexagon and no flexes, and a new step
  after the cursor drops the steps behind it. No theorem below depends on what happens to
  the steps behind the cursor.
\<close>

record 'f History =
  items :: "(string list \<times> 'f) list"
  cursor :: nat

definition newHistory :: "'f \<Rightarrow> 'f History" where
  "newHistory original = \<lparr>items = [([], original)], cursor = 0\<rparr>"

definition History_add :: "string list \<Rightarrow> 'f \<Rightarrow> 'f History \<Rightarrow> 'f History" where
  "History_add newFlexes fl h =
     \<lparr>items = take (Suc (cursor h)) (items h) @ [(newFlexes, fl)], cursor = Suc (cursor h)\<rparr>"


text \<open>
  The fields of \<^verbatim>\<open>FlexagonManager\<close>. The leaf properties are a parameter as well: the
  operations below never read them.
\<close>

record ('f, 'p) FlexagonManager =
  flexagon :: 'f
  leafProps :: 'p
  allFlexes :: "'f Flexes"
  primeFlexes :: "'f Flexes"
  history :: "'f History"

text \<open>
  The constructor, with the two flex sets that \<^verbatim>\<open>makeAllFlexes\<close> and
  \<^verbatim>\<open>getPrimeFlexes\<close> compute passed in.
\<close>

definition makeFlexagonManager ::
  "'f \<Rightarrow> 'p \<Rightarrow> 'f Flexes \<Rightarrow> 'f Flexes \<Rightarrow> ('f, 'p) FlexagonManager" where
  "makeFlexagonManager fl props flexes primes =
     \<lparr>flexagon = fl, leafProps = props, allFlexes = flexes, primeFlexes = primes,
      history = newHistory fl\<rparr>"

subsection \<open>applyFlex and applyFlexes\<close>

text \<open>
  \<^verbatim>\<open>applyFlex(flexStr)\<close> returns \<^verbatim>\<open>true\<close> or a \<^verbatim>\<open>FlexError\<close> and may assign
  \<^verbatim>\<open>this.flexagon\<close> and extend \<^verbatim>\<open>this.history\<close>: the model returns the result and the
  manager after the call. \<^verbatim>\<open>flexStr[flexStr.length - 1]\<close> of the empty string is
  \<^verbatim>\<open>undefined\<close>, so \<^verbatim>\<open>generate\<close> is false there.
\<close>

definition applyFlex ::
  "('f, 'p) FlexagonManager \<Rightarrow> string \<Rightarrow> (FlexError + bool) \<times> ('f, 'p) FlexagonManager" where
  "applyFlex m flexStr =
     (let generate = (flexStr \<noteq> [] \<and> last flexStr = CHR ''+'');
          flexName' = (if generate then butlast flexStr else flexStr)
      in case lookupFlex (allFlexes m) flexName' of
           None \<Rightarrow> (Inl \<lparr>reason = UnknownFlex, flexName = flexName'\<rparr>, m)
         | Some flex \<Rightarrow>
             (let input = (if generate then Flex_createPattern flex (flexagon m) else flexagon m)
              in case Flex_apply flex input of
                   Inl err \<Rightarrow> (Inl \<lparr>reason = CantApplyFlex, flexName = flexName'\<rparr>, m)
                 | Inr result \<Rightarrow>
                     (Inr True,
                      m\<lparr>flexagon := result,
                        history := History_add [flexStr] result (history m)\<rparr>)))"

text \<open>
  \<^verbatim>\<open>flexStr.split(" ")\<close>: the pieces between single spaces, empty pieces included (the
  empty string gives one empty piece).
\<close>

fun splitSpace :: "string \<Rightarrow> string list" where
  "splitSpace [] = [[]]"
| "splitSpace (c # cs) =
     (if c = CHR '' '' then [] # splitSpace cs
      else (case splitSpace cs of
              [] \<Rightarrow> [[c]]
            | t # ts \<Rightarrow> (c # t) # ts))"

text \<open>
  The loop of \<^verbatim>\<open>applyFlexes\<close>: each piece goes through \<^verbatim>\<open>applyFlex\<close> on the manager
  as the pieces before have left it; the first error ends the loop with a new error value
  \<^verbatim>\<open>{ reason: FlexCode.CantApplyFlex, flexName: flexName }\<close>, whatever the reason of the
  error that \<^verbatim>\<open>applyFlex\<close> returned.
\<close>

fun applyEach ::
  "('f, 'p) FlexagonManager \<Rightarrow> string list \<Rightarrow> (FlexError + bool) \<times> ('f, 'p) FlexagonManager" where
  "applyEach m [] = (Inr True, m)"
| "applyEach m (flexName' # rest) =
     (case applyFlex m flexName' of
        (Inl err, m') \<Rightarrow> (Inl \<lparr>reason = CantApplyFlex, flexName = flexName'\<rparr>, m')
      | (Inr ok, m') \<Rightarrow> applyEach m' rest)"

definition applyFlexes ::
  "('f, 'p) FlexagonManager \<Rightarrow> string \<Rightarrow> (FlexError + bool) \<times> ('f, 'p) FlexagonManager" where
  "applyFlexes m flexStr = applyEach m (splitSpace flexStr)"

subsection \<open>checkForPrimeFlexes\<close>

text \<open>
  The local variable \<^verbatim>\<open>modified\<close> starts as \<^verbatim>\<open>this.flexagon\<close> and is reassigned with
  \<^verbatim>\<open>this.allFlexes[name].apply(modified) as Flexagon\<close>. When the flex set has no flex
  of that name, the call is a method call on \<^verbatim>\<open>undefined\<close> and throws. When \<^verbatim>\<open>apply\<close>
  returns a \<^verbatim>\<open>FlexError\<close>, the source does not check: the cast passes the error on to
  the next \<^verbatim>\<open>apply\<close> and to \<^verbatim>\<open>checkForFlexes\<close> as if it were a flexagon. What they
  make of it is not in the sources, so the model keeps the error as the outcome of the
  query from there on. Neither case assigns a field of the manager.
\<close>

datatype failure = MissingFlex string | NotAFlexagon FlexError

definition applyAsFlexagon :: "'f Flexes \<Rightarrow> string \<Rightarrow> failure + 'f \<Rightarrow> failure + 'f" where
  "applyAsFlexagon flexes nm modified =
     (case modified of
        Inl thrown \<Rightarrow> Inl thrown
      | Inr fl \<Rightarrow>
          (case lookupFlex flexes nm of
             None \<Rightarrow> Inl (MissingFlex nm)
           | Some flex \<Rightarrow>
               (case Flex_apply flex fl of
                  Inl err \<Rightarrow> Inl (NotAFlexagon err)
                | Inr result \<Rightarrow> Inr result)))"

text \<open>The loop \<^verbatim>\<open>for (var i = 0; i < rightSteps; i++)\<close>, by the number of rounds left.\<close>

fun rotateSteps :: "'f Flexes \<Rightarrow> nat \<Rightarrow> failure + 'f \<Rightarrow> failure + 'f" where
  "rotateSteps flexes 0 modified = modified"
| "rotateSteps flexes (Suc n) modified =
     rotateSteps flexes n (applyAsFlexagon flexes ''>'' modified)"

text \<open>
  Modelled from the spec: \<^verbatim>\<open>checkForFlexes(flexagon, flexes)\<close>, which tests which flexes
  of the set apply to the flexagon and returns their names.
\<close>

definition checkForFlexes :: "'f \<Rightarrow> 'f Flexes \<Rightarrow> string list" where
  "checkForFlexes fl flexes =
     map fst (filter (\<lambda>(nm, flex). \<not> isFlexError (Flex_apply flex fl)) flexes)"

text \<open>
  \<^verbatim>\<open>checkForPrimeFlexes(flip, rightSteps)\<close> returns the names and, as every operation of
  the manager here, the manager after the call. \<^verbatim>\<open>rightSteps\<close> is an integer; the loop
  does not run when it is zero or negative.
\<close>

definition checkForPrimeFlexes ::
  "('f, 'p) FlexagonManager \<Rightarrow> bool \<Rightarrow> int \<Rightarrow>
     (failure + string list) \<times> ('f, 'p) FlexagonManager" where
  "checkForPrimeFlexes m flip rightSteps =
     (let modified = Inr (flexagon m);
          modified = (if flip then applyAsFlexagon (allFlexes m) ''^'' modified else modified);
          modified = rotateSteps (allFlexes m) (nat rightSteps) modified
      in (case modified of
            Inl thrown \<Rightarrow> Inl thrown
          | Inr fl \<Rightarrow> Inr (checkForFlexes fl (primeFlexes m)),
          m))"

subsection \<open>A manager to run the operations on\<close>

text \<open>
  Four flexes on a ring of four pats, written as the flexes of the explorer's test are:
  \<^verbatim>\<open>>\<close> takes \<^verbatim>\<open>[1, 2, 3, 4]\<close> to \<^verbatim>\<open>[2, 3, 4, 1]\<close>, \<^verbatim>\<open><\<close> takes it to
  \<^verbatim>\<open>[4, 1, 2, 3]\<close>, \<^verbatim>\<open>^\<close> takes it to \<^verbatim>\<open>[-4, -3, -2, -1]\<close>, and \<^verbatim>\<open>A\<close> takes
  \<^verbatim>\<open>[[1, 2], 3, 4, 5]\<close> to \<^verbatim>\<open>[1, [2, 3], 4, 5]\<close>, so it needs a pair in the first pat.
  The \<^verbatim>\<open>createPattern\<close> of \<^verbatim>\<open>A\<close> makes that pair out of a single leaf, with a new leaf
  under it. A pat with a minus sign is the pat turned over: its leaves negated and its
  order reversed.
\<close>

definition cantApply :: "string \<Rightarrow> FlexError" where
  "cantApply nm = \<lparr>reason = CantApplyFlex, flexName = nm\<rparr>"

fun flipPat :: "pat \<Rightarrow> pat" where
  "flipPat (Leaf n) = Leaf (- n)"
| "flipPat (Group ps) = Group (rev (map flipPat ps))"

fun shiftRightApply :: "Flexagon \<Rightarrow> FlexError + Flexagon" where
  "shiftRightApply [p1, p2, p3, p4] = Inr [p2, p3, p4, p1]"
| "shiftRightApply fl = Inl (cantApply ''shift right'')"

fun shiftLeftApply :: "Flexagon \<Rightarrow> FlexError + Flexagon" where
  "shiftLeftApply [p1, p2, p3, p4] = Inr [p4, p1, p2, p3]"
| "shiftLeftApply fl = Inl (cantApply ''shift left'')"

fun turnOverApply :: "Flexagon \<Rightarrow> FlexError + Flexagon" where
  "turnOverApply [p1, p2, p3, p4] = Inr [flipPat p4, flipPat p3, flipPat p2, flipPat p1]"
| "turnOverApply fl = Inl (cantApply ''turn over'')"

fun flexAApply :: "Flexagon \<Rightarrow> FlexError + Flexagon" where
  "flexAApply [Group [p1, p2], p3, p4, p5] = Inr [p1, Group [p2, p3], p4, p5]"
| "flexAApply fl = Inl (cantApply ''A'')"

fun flexACreatePattern :: "Flexagon \<Rightarrow> Flexagon" where
  "flexACreatePattern (Leaf n # rest) = Group [Leaf n, Leaf 7] # rest"
| "flexACreatePattern fl = fl"

definition flexA :: "Flexagon Flex" where
  "flexA = \<lparr>Flex_apply = flexAApply, Flex_createPattern = flexACreatePattern\<rparr>"

definition exampleFlexes :: "Flexagon Flexes" where
  "exampleFlexes =
     [(''>'', \<lparr>Flex_apply = shiftRightApply, Flex_createPattern = (\<lambda>fl. fl)\<rparr>),
      (''<'', \<lparr>Flex_apply = shiftLeftApply, Flex_createPattern = (\<lambda>fl. fl)\<rparr>),
      (''^'', \<lparr>Flex_apply = turnOverApply, Flex_createPattern = (\<lambda>fl. fl)\<rparr>),
      (''A'', flexA)]"

definition exampleManager :: "(Flexagon, unit) FlexagonManager" where
  "exampleManager =
     makeFlexagonManager [Leaf 1, Group [Leaf 2, Leaf 3], Leaf 4, Group [Leaf 5, Leaf 6]] ()
       exampleFlexes [(''A'', flexA)]"

section \<open>Consolidating the flex history (addAndConsolidate)\<close>

text \<open>
  The test of the source that lets a new flex cancel the last flex of the list:
  \<^verbatim>\<open>(flex === '<' && last === '>') || (flex === '>' && last === '<') || (flex === '^' && last === '^')\<close>
\<close>

definition cancels :: "string \<Rightarrow> string \<Rightarrow> bool" where
  "cancels flex lst \<longleftrightarrow>
     (flex = ''<'' \<and> lst = ''>'') \<or> (flex = ''>'' \<and> lst = ''<'') \<or> (flex = ''^'' \<and> lst = ''^'')"

text \<open>The first loop copies the old list, one \<^verbatim>\<open>push\<close> for each element.\<close>

fun copyAcross :: "string list \<Rightarrow> string list \<Rightarrow> string list" where
  "copyAcross allflexes [] = allflexes"
| "copyAcross allflexes (flex # rest) = copyAcross (allflexes @ [flex]) rest"

text \<open>
  The second loop, with its two variables \<^verbatim>\<open>allflexes\<close> and \<^verbatim>\<open>start\<close>. While
  \<^verbatim>\<open>start\<close> holds, the last element of the list (the empty string when the list is
  empty) is compared with the new flex; a cancelling pair pops the list and goes on to the
  next flex (\<^verbatim>\<open>continue\<close>), anything else clears \<^verbatim>\<open>start\<close> and pushes.
\<close>

fun addNew :: "string list \<Rightarrow> bool \<Rightarrow> string list \<Rightarrow> string list" where
  "addNew allflexes start [] = allflexes"
| "addNew allflexes start (flex # rest) =
     (if start then
        (let lst = (if length allflexes > 0 then last allflexes else []) in
           if cancels flex lst then addNew (butlast allflexes) True rest
           else addNew (allflexes @ [flex]) False rest)
      else addNew (allflexes @ [flex]) False rest)"

definition addAndConsolidate :: "string list \<Rightarrow> string list \<Rightarrow> string list" where
  "addAndConsolidate oldFlexes newFlexes = addNew (copyAcross [] oldFlexes) True newFlexes"

text \<open>
  The pairs (last remaining old element, next new element) that cancel at the junction of
  the two lists.
\<close>

definition junctionPair :: "string \<Rightarrow> string \<Rightarrow> bool" where
  "junctionPair lst flex \<longleftrightarrow> (lst, flex) \<in> {(''>'', ''<''), (''<'', ''>''), (''^'', ''^'')}"

section \<open>Tracking the states seen (Tracker)\<close>

text \<open>
  Modelled from the spec: the class \<^verbatim>\<open>Tracker\<close> with \<^verbatim>\<open>findMaybeAdd\<close> and
  \<^verbatim>\<open>getTotalStates\<close>, of which only the tests are in the sources. A flexagon is looked
  up by its canonical key, the smallest encoding among its \<open>4 \<times> ringLength\<close> images:
  every rotation of the ring, of its reflection (the folds of every pat in mirror image,
  that is, each nested group in reverse order), of the flexagon turned over (every leaf id
  negated, the pats in reverse order), and of both together. The encoding is the sequence
  of signed leaf ids, pat by pat, and the order is the lexicographic one. The tracker keeps
  the keys in the order of discovery; the index of a state is the position of its key.
\<close>

fun leafIds :: "pat \<Rightarrow> int list" where
  "leafIds (Leaf n) = [n]"
| "leafIds (Group ps) = concat (map leafIds ps)"

fun negatePat :: "pat \<Rightarrow> pat" where
  "negatePat (Leaf n) = Leaf (- n)"
| "negatePat (Group ps) = Group (map negatePat ps)"

fun mirrorPat :: "pat \<Rightarrow> pat" where
  "mirrorPat (Leaf n) = Leaf n"
| "mirrorPat (Group ps) = Group (rev (map mirrorPat ps))"

definition turnOver :: "Flexagon \<Rightarrow> Flexagon" where
  "turnOver fl = rev (map negatePat fl)"

definition reflect :: "Flexagon \<Rightarrow> Flexagon" where
  "reflect fl = map mirrorPat fl"

definition symmetryImages :: "Flexagon \<Rightarrow> Flexagon list" where
  "symmetryImages fl =
     concat (map (\<lambda>g. map (\<lambda>k. rotate k g) [0..<length fl])
       [fl, reflect fl, turnOver fl, turnOver (reflect fl)])"

definition encoding :: "Flexagon \<Rightarrow> int list list" where
  "encoding fl = map leafIds fl"

definition canonicalKey :: "Flexagon \<Rightarrow> int list list" where
  "canonicalKey fl =
     (case map encoding (symmetryImages fl) of
        [] \<Rightarrow> []
      | k # ks \<Rightarrow> fold min ks k)"

record Tracker =
  states :: "int list list list"

fun indexOf :: "'a \<Rightarrow> 'a list \<Rightarrow> nat option" where
  "indexOf k [] = None"
| "indexOf k (x # xs) = (if x = k then Some 0 else map_option Suc (indexOf k xs))"

text \<open>
  \<^verbatim>\<open>findMaybeAdd\<close> returns the index of a known state, or \<^verbatim>\<open>null\<close> (\<open>None\<close>) after
  adding a new one; \<^verbatim>\<open>new Tracker(flexagon)\<close> holds the starting flexagon at index 0.
\<close>

definition findMaybeAdd :: "Tracker \<Rightarrow> Flexagon \<Rightarrow> nat option \<times> Tracker" where
  "findMaybeAdd tr fl =
     (let k = canonicalKey fl
      in case indexOf k (states tr) of
           Some i \<Rightarrow> (Some i, tr)
         | None \<Rightarrow> (None, tr\<lparr>states := states tr @ [k]\<rparr>))"

definition newTracker :: "Flexagon \<Rightarrow> Tracker" where
  "newTracker fl = snd (findMaybeAdd \<lparr>states = []\<rparr> fl)"

definition getTotalStates :: "Tracker \<Rightarrow> nat" where
  "getTotalStates tr = length (states tr)"

section \<open>Atomic patterns and flex formulas\<close>

text \<open>
  Modelled from the spec: the atomic pattern engine (\<^verbatim>\<open>stringToAtomicPattern\<close>,
  \<^verbatim>\<open>atomicPatternToString\<close>, \<^verbatim>\<open>parseFlexSequence\<close>, \<^verbatim>\<open>makeAtomicFlexes\<close> and the
  \<^verbatim>\<open>apply\<close> of an atomic flex), of which only the test
  \<^verbatim>\<open>testMakeAtomicFlexes.ts\<close> is in the sources. The spec gives the token grammar of
  patterns and formulas and the meaning of rotating and turning over; the pattern strings
  of the test add what the spec leaves out: a pattern is written
  \<^verbatim>\<open>a 1 > / [-3,2] > b\<close>, with the rest of the flexagon to the left (\<^verbatim>\<open>a\<close>) and to the
  right (\<^verbatim>\<open>b\<close>) of the pats it names, a direction \<^verbatim>\<open>>\<close> or \<^verbatim>\<open><\<close> after a pat, and
  \<^verbatim>\<open>/\<close> at the current vertex.
\<close>

datatype direction = DirRight | DirLeft

type_synonym ConnectedPat = "pat \<times> direction option"

datatype remainderName = RemA | RemB

text \<open>A remainder is \<^verbatim>\<open>a\<close>, \<^verbatim>\<open>b\<close>, \<^verbatim>\<open>-a\<close> or \<^verbatim>\<open>-b\<close>: the flag says that it is turned over.\<close>

type_synonym Remainder = "bool \<times> remainderName"

record AtomicPattern =
  otherLeft :: Remainder
  leftPats :: "ConnectedPat list"
  rightPats :: "ConnectedPat list"
  otherRight :: Remainder

datatype AtomicParseError = BadPatternString

datatype AtomicPatternError =
  UnknownAtomicFlex string | NotEnoughPats | PatMismatch | DirectionMismatch | UnboundLeaf int

subsection \<open>Reading a pattern string\<close>

datatype ptoken = PRem Remainder | PDir direction | PSlash | PNum int | POpen | PClose | PComma

datatype pending = Idle | Minus | Digits bool nat

definition digitVal :: "char \<Rightarrow> nat option" where
  "digitVal c = map_of (zip ''0123456789'' [0, 1, 2, 3, 4, 5, 6, 7, 8, 9]) c"

fun flush :: "pending \<Rightarrow> ptoken list option" where
  "flush Idle = Some []"
| "flush Minus = None"
| "flush (Digits neg n) = Some [PNum (if neg then - int n else int n)]"

definition emit :: "pending \<Rightarrow> ptoken list \<Rightarrow> ptoken list option \<Rightarrow> ptoken list option" where
  "emit st toks rest =
     (case flush st of
        None \<Rightarrow> None
      | Some done \<Rightarrow> map_option (\<lambda>r. done @ toks @ r) rest)"

fun lexPattern :: "pending \<Rightarrow> string \<Rightarrow> ptoken list option" where
  "lexPattern st [] = flush st"
| "lexPattern st (c # cs) =
     (case digitVal c of
        Some d \<Rightarrow>
          (case st of
             Idle \<Rightarrow> lexPattern (Digits False d) cs
           | Minus \<Rightarrow> lexPattern (Digits True d) cs
           | Digits neg n \<Rightarrow> lexPattern (Digits neg (10 * n + d)) cs)
      | None \<Rightarrow>
          if c = CHR ''-'' then
            (if st = Minus then None else emit st [] (lexPattern Minus cs))
          else if c = CHR ''a'' then
            (if st = Minus then map_option (Cons (PRem (True, RemA))) (lexPattern Idle cs)
             else emit st [PRem (False, RemA)] (lexPattern Idle cs))
          else if c = CHR ''b'' then
            (if st = Minus then map_option (Cons (PRem (True, RemB))) (lexPattern Idle cs)
             else emit st [PRem (False, RemB)] (lexPattern Idle cs))
          else if c = CHR '' '' then emit st [] (lexPattern Idle cs)
          else if c = CHR ''>'' then emit st [PDir DirRight] (lexPattern Idle cs)
          else if c = CHR ''<'' then emit st [PDir DirLeft] (lexPattern Idle cs)
          else if c = CHR ''/'' then emit st [PSlash] (lexPattern Idle cs)
          else if c = CHR ''['' then emit st [POpen] (lexPattern Idle cs)
          else if c = CHR '']'' then emit st [PClose] (lexPattern Idle cs)
          else if c = CHR '','' then emit st [PComma] (lexPattern Idle cs)
          else None)"

text \<open>
  The brackets are closed with a stack of the groups that are still open; outside every
  bracket a pat, a direction, the slash or a remainder is one item of the pattern.
\<close>

datatype item = IPat pat | IDir direction | ISlash | IRem Remainder

fun groupPats :: "pat list list \<Rightarrow> ptoken list \<Rightarrow> item list option" where
  "groupPats stack [] = (if stack = [] then Some [] else None)"
| "groupPats stack (POpen # ts) = groupPats ([] # stack) ts"
| "groupPats [] (PClose # ts) = None"
| "groupPats [ps] (PClose # ts) = map_option (Cons (IPat (Group (rev ps)))) (groupPats [] ts)"
| "groupPats (ps # qs # stack) (PClose # ts) = groupPats ((Group (rev ps) # qs) # stack) ts"
| "groupPats [] (PNum n # ts) = map_option (Cons (IPat (Leaf n))) (groupPats [] ts)"
| "groupPats (ps # stack) (PNum n # ts) = groupPats ((Leaf n # ps) # stack) ts"
| "groupPats [] (PComma # ts) = None"
| "groupPats (ps # stack) (PComma # ts) = groupPats (ps # stack) ts"
| "groupPats [] (PDir d # ts) = map_option (Cons (IDir d)) (groupPats [] ts)"
| "groupPats [] (PSlash # ts) = map_option (Cons ISlash) (groupPats [] ts)"
| "groupPats [] (PRem r # ts) = map_option (Cons (IRem r)) (groupPats [] ts)"
| "groupPats (ps # stack) (t # ts) = None"

fun connect :: "item list \<Rightarrow> ConnectedPat list option" where
  "connect [] = Some []"
| "connect (IPat p # IDir d # rest) = map_option (Cons (p, Some d)) (connect rest)"
| "connect (IPat p # rest) = map_option (Cons (p, None)) (connect rest)"
| "connect (i # rest) = None"

definition assemble :: "item list \<Rightarrow> AtomicPattern option" where
  "assemble its =
     (case its of
        IRem l # rest \<Rightarrow>
          (case rev rest of
             IRem r # middle \<Rightarrow>
               (let mid = rev middle;
                    beforeSlash = takeWhile (\<lambda>i. i \<noteq> ISlash) mid;
                    fromSlash = dropWhile (\<lambda>i. i \<noteq> ISlash) mid
                in case fromSlash of
                     ISlash # behind \<Rightarrow>
                       (case (connect beforeSlash, connect behind) of
                          (Some lp, Some rp) \<Rightarrow>
                            Some \<lparr>otherLeft = l, leftPats = lp, rightPats = rp, otherRight = r\<rparr>
                        | _ \<Rightarrow> None)
                   | _ \<Rightarrow> None)
           | _ \<Rightarrow> None)
      | _ \<Rightarrow> None)"

definition stringToAtomicPattern :: "string \<Rightarrow> AtomicParseError + AtomicPattern" where
  "stringToAtomicPattern s =
     (case lexPattern Idle s of
        None \<Rightarrow> Inl BadPatternString
      | Some toks \<Rightarrow>
          (case groupPats [] toks of
             None \<Rightarrow> Inl BadPatternString
           | Some its \<Rightarrow>
               (case assemble its of
                  None \<Rightarrow> Inl BadPatternString
                | Some p \<Rightarrow> Inr p)))"

subsection \<open>Writing a pattern\<close>

definition digitChar :: "nat \<Rightarrow> char" where
  "digitChar d = ''0123456789'' ! d"

fun showNat :: "nat \<Rightarrow> string" where
  "showNat n = (if n < 10 then [digitChar n] else showNat (n div 10) @ [digitChar (n mod 10)])"

definition showInt :: "int \<Rightarrow> string" where
  "showInt i = (if i < 0 then CHR ''-'' # showNat (nat (- i)) else showNat (nat i))"

fun joinWith :: "string \<Rightarrow> string list \<Rightarrow> string" where
  "joinWith sep [] = []"
| "joinWith sep [s] = s"
| "joinWith sep (s # t # rest) = s @ sep @ joinWith sep (t # rest)"

fun patToString :: "pat \<Rightarrow> string" where
  "patToString (Leaf n) = showInt n"
| "patToString (Group ps) = ''['' @ joinWith '','' (map patToString ps) @ '']''"

fun directionToString :: "direction \<Rightarrow> string" where
  "directionToString DirRight = ''>''"
| "directionToString DirLeft = ''<''"

fun connectedPatToString :: "ConnectedPat \<Rightarrow> string" where
  "connectedPatToString (p, None) = patToString p"
| "connectedPatToString (p, Some d) = patToString p @ '' '' @ directionToString d"

fun remainderToString :: "Remainder \<Rightarrow> string" where
  "remainderToString (neg, RemA) = (if neg then ''-a'' else ''a'')"
| "remainderToString (neg, RemB) = (if neg then ''-b'' else ''b'')"

definition atomicPatternToString :: "AtomicPattern \<Rightarrow> string" where
  "atomicPatternToString p =
     joinWith '' ''
       ([remainderToString (otherLeft p)] @ map connectedPatToString (leftPats p) @ [''/''] @
        map connectedPatToString (rightPats p) @ [remainderToString (otherRight p)])"

subsection \<open>Reading a formula\<close>

text \<open>
  A formula names flexes: \<^verbatim>\<open>>\<close>, \<^verbatim>\<open><\<close>, \<^verbatim>\<open>^\<close>, \<^verbatim>\<open>~\<close>, or a capital letter followed by
  small letters; \<^verbatim>\<open>'\<close> after a name asks for the inverse; a number after a flex or
  after a group in parentheses repeats it. Spaces separate and are not needed.
\<close>

type_synonym FlexName = "string \<times> bool"

datatype ftoken = FName string | FInverse | FOpen | FClose | FCount nat

datatype fpending = FIdle | InName string | InCount nat

fun fflush :: "fpending \<Rightarrow> ftoken list" where
  "fflush FIdle = []"
| "fflush (InName nm) = [FName nm]"
| "fflush (InCount n) = [FCount n]"

definition isUpper :: "char \<Rightarrow> bool" where
  "isUpper c \<longleftrightarrow> c \<in> set ''ABCDEFGHIJKLMNOPQRSTUVWXYZ''"

definition isLower :: "char \<Rightarrow> bool" where
  "isLower c \<longleftrightarrow> c \<in> set ''abcdefghijklmnopqrstuvwxyz''"

fun lexFormula :: "fpending \<Rightarrow> string \<Rightarrow> ftoken list option" where
  "lexFormula st [] = Some (fflush st)"
| "lexFormula st (c # cs) =
     (case digitVal c of
        Some d \<Rightarrow>
          (case st of
             InCount n \<Rightarrow> lexFormula (InCount (10 * n + d)) cs
           | _ \<Rightarrow> map_option (\<lambda>r. fflush st @ r) (lexFormula (InCount d) cs))
      | None \<Rightarrow>
          if isLower c then
            (case st of
               InName nm \<Rightarrow> lexFormula (InName (nm @ [c])) cs
             | _ \<Rightarrow> None)
          else if isUpper c then map_option (\<lambda>r. fflush st @ r) (lexFormula (InName [c]) cs)
          else if c = CHR '' '' then map_option (\<lambda>r. fflush st @ r) (lexFormula FIdle cs)
          else if c \<in> set ''><^~'' then
            map_option (\<lambda>r. fflush st @ FName [c] # r) (lexFormula FIdle cs)
          else if c = CHR 0x27 then
            map_option (\<lambda>r. fflush st @ FInverse # r) (lexFormula FIdle cs)
          else if c = CHR ''('' then map_option (\<lambda>r. fflush st @ FOpen # r) (lexFormula FIdle cs)
          else if c = CHR '')'' then map_option (\<lambda>r. fflush st @ FClose # r) (lexFormula FIdle cs)
          else None)"

text \<open>
  Each level of parentheses holds its items, last item first; an item is the list of
  flexes it stands for, so that a count can repeat it and a closing parenthesis can make
  one item of a whole level.
\<close>

fun parseFormula :: "FlexName list list list \<Rightarrow> ftoken list \<Rightarrow> FlexName list option" where
  "parseFormula [level] [] = Some (concat (rev level))"
| "parseFormula levels [] = None"
| "parseFormula [] (t # ts) = None"
| "parseFormula (level # levels) (FName nm # ts) =
     parseFormula (([(nm, False)] # level) # levels) ts"
| "parseFormula (([(nm, inverted)] # level) # levels) (FInverse # ts) =
     parseFormula (([(nm, \<not> inverted)] # level) # levels) ts"
| "parseFormula (level # levels) (FInverse # ts) = None"
| "parseFormula ((it # level) # levels) (FCount n # ts) =
     parseFormula ((concat (replicate n it) # level) # levels) ts"
| "parseFormula ([] # levels) (FCount n # ts) = None"
| "parseFormula (level # levels) (FOpen # ts) = parseFormula ([] # level # levels) ts"
| "parseFormula (level # outer # levels) (FClose # ts) =
     parseFormula ((concat (rev level) # outer) # levels) ts"
| "parseFormula [level] (FClose # ts) = None"

definition parseFlexSequence :: "string \<Rightarrow> FlexName list option" where
  "parseFlexSequence s =
     (case lexFormula FIdle s of
        None \<Rightarrow> None
      | Some toks \<Rightarrow> parseFormula [[]] toks)"

subsection \<open>Applying an atomic flex\<close>

text \<open>
  A pattern leaf stands for a whole pat of the input, turned over when the leaf has a
  minus sign; a pattern group needs a group of the same size in the input. The bindings
  are kept by the absolute value of the pattern leaf.
\<close>

type_synonym bindings = "(int \<times> pat) list"

fun matchPat :: "pat \<Rightarrow> pat \<Rightarrow> bindings option"
  and matchPats :: "pat list \<Rightarrow> pat list \<Rightarrow> bindings option" where
  "matchPat (Leaf n) p = Some [(\<bar>n\<bar>, if n < 0 then flipPat p else p)]"
| "matchPat (Group pts) (Leaf n) = None"
| "matchPat (Group pts) (Group ps) = matchPats pts ps"
| "matchPats [] [] = Some []"
| "matchPats (pt # pts) (p # ps) =
     (case matchPat pt p of
        None \<Rightarrow> None
      | Some b \<Rightarrow> map_option (\<lambda>bs. b @ bs) (matchPats pts ps))"
| "matchPats [] (p # ps) = None"
| "matchPats (pt # pts) [] = None"

fun substPat :: "bindings \<Rightarrow> pat \<Rightarrow> AtomicPatternError + pat"
  and substPats :: "bindings \<Rightarrow> pat list \<Rightarrow> AtomicPatternError + pat list" where
  "substPat b (Leaf n) =
     (case map_of b \<bar>n\<bar> of
        None \<Rightarrow> Inl (UnboundLeaf n)
      | Some p \<Rightarrow> Inr (if n < 0 then flipPat p else p))"
| "substPat b (Group pts) = map_sum id Group (substPats b pts)"
| "substPats b [] = Inr []"
| "substPats b (pt # pts) =
     (case substPat b pt of
        Inl e \<Rightarrow> Inl e
      | Inr p \<Rightarrow> map_sum id (Cons p) (substPats b pts))"

fun reverseDirection :: "direction option \<Rightarrow> direction option" where
  "reverseDirection None = None"
| "reverseDirection (Some DirRight) = Some DirLeft"
| "reverseDirection (Some DirLeft) = Some DirRight"

text \<open>
  A pattern pat with a direction needs that direction in the input; without one it takes
  any, and a single pattern leaf remembers the direction it met. The result is the
  bindings of the pats and of the directions.
\<close>

fun matchConnected ::
  "ConnectedPat list \<Rightarrow> ConnectedPat list \<Rightarrow>
     AtomicPatternError + bindings \<times> (int \<times> direction option) list" where
  "matchConnected [] input = Inr ([], [])"
| "matchConnected ((pt, pd) # pattern) [] = Inl NotEnoughPats"
| "matchConnected ((pt, pd) # pattern) ((p, d) # input) =
     (if pd \<noteq> None \<and> pd \<noteq> d then Inl DirectionMismatch
      else case matchPat pt p of
             None \<Rightarrow> Inl PatMismatch
           | Some b \<Rightarrow>
               (case matchConnected pattern input of
                  Inl e \<Rightarrow> Inl e
                | Inr (bs, ds) \<Rightarrow>
                    Inr (b @ bs, (case pt of Leaf n \<Rightarrow> [(\<bar>n\<bar>, d)] | Group g \<Rightarrow> []) @ ds)))"

fun emitConnected ::
  "bindings \<Rightarrow> (int \<times> direction option) list \<Rightarrow> ConnectedPat list \<Rightarrow>
     AtomicPatternError + ConnectedPat list" where
  "emitConnected b ds [] = Inr []"
| "emitConnected b ds ((pt, pd) # rest) =
     (case substPat b pt of
        Inl e \<Rightarrow> Inl e
      | Inr p \<Rightarrow>
          map_sum id
            (Cons (p, case pd of
                        Some d \<Rightarrow> Some d
                      | None \<Rightarrow>
                          (case pt of
                             Leaf n \<Rightarrow> (case map_of ds \<bar>n\<bar> of Some d \<Rightarrow> d | None \<Rightarrow> None)
                           | Group g \<Rightarrow> None)))
            (emitConnected b ds rest))"

text \<open>
  What a remainder of the pattern stands for: the pats of the input beyond the ones the
  pattern names, from the vertex outwards, and the remainder of the input behind them.
  Turning it over turns every pat over and reverses every direction; moving it to the
  other side of the vertex reverses every direction once more. \<open>True\<close> is the left side.
\<close>

type_synonym rest = "ConnectedPat list \<times> Remainder \<times> bool"

definition turnRest :: "rest \<Rightarrow> rest" where
  "turnRest r =
     (case r of (pats, (neg, nm), side) \<Rightarrow>
        (map (\<lambda>(p, d). (flipPat p, reverseDirection d)) pats, (\<not> neg, nm), side))"

definition moveRest :: "bool \<Rightarrow> rest \<Rightarrow> rest" where
  "moveRest side r =
     (case r of (pats, rem, origin) \<Rightarrow>
        (if origin = side then r else (map (\<lambda>(p, d). (p, reverseDirection d)) pats, rem, side)))"

definition bindRest :: "Remainder \<Rightarrow> rest \<Rightarrow> remainderName \<times> rest" where
  "bindRest patternRem r = (snd patternRem, if fst patternRem then turnRest r else r)"

definition placeRest :: "(remainderName \<times> rest) list \<Rightarrow> Remainder \<Rightarrow> bool \<Rightarrow> rest option" where
  "placeRest rests outRem side =
     (case map_of rests (snd outRem) of
        None \<Rightarrow> None
      | Some r \<Rightarrow> Some (moveRest side (if fst outRem then turnRest r else r)))"

definition applyAtomicFlex ::
  "AtomicPattern \<Rightarrow> AtomicPattern \<Rightarrow> AtomicPattern \<Rightarrow> AtomicPatternError + AtomicPattern" where
  "applyAtomicFlex pattern output input =
     (case matchConnected (rev (leftPats pattern)) (rev (leftPats input)) of
        Inl e \<Rightarrow> Inl e
      | Inr (bl, dl) \<Rightarrow>
          (case matchConnected (rightPats pattern) (rightPats input) of
             Inl e \<Rightarrow> Inl e
           | Inr (br, dr) \<Rightarrow>
               (let b = bl @ br;
                    ds = dl @ dr;
                    restLeft =
                      (drop (length (leftPats pattern)) (rev (leftPats input)),
                       otherLeft input, True);
                    restRight =
                      (drop (length (rightPats pattern)) (rightPats input),
                       otherRight input, False);
                    rests = [bindRest (otherLeft pattern) restLeft,
                             bindRest (otherRight pattern) restRight]
                in case (emitConnected b ds (leftPats output),
                         emitConnected b ds (rightPats output),
                         placeRest rests (otherLeft output) True,
                         placeRest rests (otherRight output) False) of
                     (Inr lp, Inr rp, Some (lrest, lrem, ls), Some (rrest, rrem, rs)) \<Rightarrow>
                       Inr \<lparr>otherLeft = lrem, leftPats = rev lrest @ lp,
                            rightPats = rp @ rrest, otherRight = rrem\<rparr>
                   | (Inl e, x) \<Rightarrow> Inl e
                   | (x, Inl e, y) \<Rightarrow> Inl e
                   | _ \<Rightarrow> Inl PatMismatch)))"

subsection \<open>The base flexes and a formula at work\<close>

text \<open>
  The base flexes, as pattern strings. \<^verbatim>\<open>Ur\<close> is the one the test writes down
  (\<^verbatim>\<open>Ur = a / [-2,1] > b  ->  a / 1 < 2 > -b\<close>); \<^verbatim>\<open>>\<close> and \<^verbatim>\<open><\<close> move one pat across
  the vertex, \<^verbatim>\<open>^\<close> turns the flexagon over (every leaf negated, every order reversed),
  and \<^verbatim>\<open>~\<close> turns it over about the other axis, which keeps the two sides where they
  are: the test has \<^verbatim>\<open>^~\<close> take \<^verbatim>\<open>a / b\<close> to \<^verbatim>\<open>b / a\<close>.
\<close>

definition atomicFlexTable :: "(string \<times> string \<times> string) list" where
  "atomicFlexTable =
     [(''>'', ''a / 1 b'', ''a 1 / b''),
      (''<'', ''a 1 / b'', ''a / 1 b''),
      (''^'', ''a / b'', ''-b / -a''),
      (''~'', ''a / b'', ''-a / -b''),
      (''Ur'', ''a / [-2,1] > b'', ''a / 1 < 2 > -b'')]"

definition applyNamed :: "FlexName \<Rightarrow> AtomicPattern \<Rightarrow> AtomicPatternError + AtomicPattern" where
  "applyNamed flex input =
     (case map_of atomicFlexTable (fst flex) of
        None \<Rightarrow> Inl (UnknownAtomicFlex (fst flex))
      | Some (inStr, outStr) \<Rightarrow>
          (case (stringToAtomicPattern inStr, stringToAtomicPattern outStr) of
             (Inr pin, Inr pout) \<Rightarrow>
               (if snd flex then applyAtomicFlex pout pin input
                else applyAtomicFlex pin pout input)
           | _ \<Rightarrow> Inl (UnknownAtomicFlex (fst flex))))"

text \<open>The loop of the test's \<^verbatim>\<open>applyFlexes\<close>: the first error ends it.\<close>

fun applyAtomicFlexes ::
  "AtomicPattern \<Rightarrow> FlexName list \<Rightarrow> AtomicPatternError + AtomicPattern" where
  "applyAtomicFlexes input [] = Inr input"
| "applyAtomicFlexes input (flex # rest) =
     (case applyNamed flex input of
        Inl e \<Rightarrow> Inl e
      | Inr result \<Rightarrow> applyAtomicFlexes result rest)"

text \<open>
  What \<^verbatim>\<open>testFormula(name, flexes, input, output)\<close> computes before it compares with
  \<^verbatim>\<open>output\<close>: the input string parsed, the formula applied, the result written out.
\<close>

datatype formulaFailure =
  BadInput AtomicParseError | BadFormula | CannotApply AtomicPatternError

definition runFormula :: "string \<Rightarrow> string \<Rightarrow> formulaFailure + string" where
  "runFormula flexes input =
     (case stringToAtomicPattern input of
        Inl e \<Rightarrow> Inl (BadInput e)
      | Inr inputPattern \<Rightarrow>
          (case parseFlexSequence flexes of
             None \<Rightarrow> Inl BadFormula
           | Some names \<Rightarrow>
               (case applyAtomicFlexes inputPattern names of
                  Inl e \<Rightarrow> Inl (CannotApply e)
                | Inr result \<Rightarrow> Inr (atomicPatternToString result))))"

section \<open>Properties of the manager\<close>













lemmas example_defs = exampleManager_def makeFlexagonManager_def exampleFlexes_def flexA_def
  newHistory_def History_add_def lookupFlex_def cantApply_def




text \<open>
  Claim C2 at the manager of the example, whose flex set has no flex \<^verbatim>\<open>Q\<close>:
  \<^verbatim>\<open>applyFlex\<close> reports \<^verbatim>\<open>UnknownFlex\<close>, and \<^verbatim>\<open>applyFlexes\<close> reports
  \<^verbatim>\<open>CantApplyFlex\<close> for the same name, alone or after another flex.
\<close>

theorem applyFlexes_unknown_name_reason:
  "lookupFlex (allFlexes exampleManager) ''Q'' = None \<and>
   fst (applyFlex exampleManager ''Q'') = Inl \<lparr>reason = UnknownFlex, flexName = ''Q''\<rparr> \<and>
   fst (applyFlexes exampleManager ''Q'') = Inl \<lparr>reason = CantApplyFlex, flexName = ''Q''\<rparr> \<and>
   fst (applyFlexes exampleManager ''> Q'') = Inl \<lparr>reason = CantApplyFlex, flexName = ''Q''\<rparr>"
  by (simp add: applyFlexes_def applyFlex_def Let_def example_defs)

text \<open>
  The part of C2 that the code keeps, for every manager: a flex name that is neither in
  the flex set nor an inherited name makes \<^verbatim>\<open>applyFlex\<close> report \<^verbatim>\<open>UnknownFlex\<close>
  with that name and change nothing.
\<close>

lemma applyFlex_unknown_name:
  "storedOrAbsent (allFlexes m) flexStr \<Longrightarrow>
   lookupFlex (allFlexes m) (flexNameOf flexStr) = None \<Longrightarrow>
   applyFlex m flexStr = (Inl \<lparr>reason = UnknownFlex, flexName = flexNameOf flexStr\<rparr>, m)"
  by (simp add: applyFlex_def flexNameOf_def Let_def)

text \<open>
  Claim C8: whatever the manager and the arguments, the manager after
  \<^verbatim>\<open>checkForPrimeFlexes(flip, rightSteps)\<close> is the manager before it: the flexagon, the
  leaf properties, both flex sets and the history are the same.
\<close>

theorem checkForPrimeFlexes_frame:
  "snd (checkForPrimeFlexes m flip rightSteps) = m"
  by (simp add: checkForPrimeFlexes_def Let_def)

text \<open>
  What the query answers on the example manager, whose only prime flex \<^verbatim>\<open>A\<close> needs a
  pair in the first pat: the flexagon \<^verbatim>\<open>[1, [2, 3], 4, [5, 6]]\<close> has one there after one
  step to the right, or turned over.
\<close>

lemma checkForPrimeFlexes_example:
  "checkForPrimeFlexes exampleManager False 0 = (Inr [], exampleManager) \<and>
   checkForPrimeFlexes exampleManager False 1 = (Inr [''A''], exampleManager) \<and>
   checkForPrimeFlexes exampleManager True 0 = (Inr [''A''], exampleManager) \<and>
   checkForPrimeFlexes exampleManager True (- 3) = (Inr [''A''], exampleManager) \<and>
   checkForPrimeFlexes exampleManager True 1 = (Inr [], exampleManager)"
  by (simp add: checkForPrimeFlexes_def Let_def applyAsFlexagon_def checkForFlexes_def
      isFlexError_def example_defs)

text \<open>
  Claim C9: for a flex string \<open>nm @ ''+''\<close> whose base name \<open>nm\<close> is in the flex set,
  \<^verbatim>\<open>applyFlex\<close> applies the flex to the result of its \<^verbatim>\<open>createPattern\<close> on the current
  flexagon; for a flex string that does not end in \<^verbatim>\<open>+\<close> it applies the flex to the
  current flexagon itself. In both cases an error of \<^verbatim>\<open>apply\<close> is reported as
  \<^verbatim>\<open>CantApplyFlex\<close> with the base name and changes nothing, and a result becomes the
  flexagon of the manager, with a step for the flex string in the history.
\<close>

theorem applyFlex_generate:
  "(lookupFlex (allFlexes m) nm = Some flex \<longrightarrow>
      applyFlex m (nm @ ''+'') =
        (case Flex_apply flex (Flex_createPattern flex (flexagon m)) of
           Inl err \<Rightarrow> (Inl \<lparr>reason = CantApplyFlex, flexName = nm\<rparr>, m)
         | Inr result \<Rightarrow>
             (Inr True,
              m\<lparr>flexagon := result,
                history := History_add [nm @ ''+''] result (history m)\<rparr>))) \<and>
   ((flexStr = [] \<or> last flexStr \<noteq> CHR ''+'') \<and> lookupFlex (allFlexes m) flexStr = Some flex \<longrightarrow>
      applyFlex m flexStr =
        (case Flex_apply flex (flexagon m) of
           Inl err \<Rightarrow> (Inl \<lparr>reason = CantApplyFlex, flexName = flexStr\<rparr>, m)
         | Inr result \<Rightarrow>
             (Inr True,
              m\<lparr>flexagon := result,
                history := History_add [flexStr] result (history m)\<rparr>)))"
  by (auto simp: applyFlex_def Let_def split: sum.splits)

text \<open>
  On the example manager the first pat is the single leaf 1, so \<^verbatim>\<open>A\<close> cannot be applied
  as it is, and \<^verbatim>\<open>A+\<close> can: \<^verbatim>\<open>createPattern\<close> makes the pair \<^verbatim>\<open>[1, 7]\<close> first.
\<close>

theorem applyFlex_generate_witness:
  "lookupFlex (allFlexes exampleManager) ''A'' = Some flexA \<and>
   Flex_createPattern flexA (flexagon exampleManager) =
     [Group [Leaf 1, Leaf 7], Group [Leaf 2, Leaf 3], Leaf 4, Group [Leaf 5, Leaf 6]] \<and>
   applyFlex exampleManager ''A+'' =
     (Inr True,
      exampleManager\<lparr>flexagon :=
          [Leaf 1, Group [Leaf 7, Group [Leaf 2, Leaf 3]], Leaf 4, Group [Leaf 5, Leaf 6]],
        history := History_add [''A+'']
          [Leaf 1, Group [Leaf 7, Group [Leaf 2, Leaf 3]], Leaf 4, Group [Leaf 5, Leaf 6]]
          (history exampleManager)\<rparr>) \<and>
   applyFlex exampleManager ''A'' =
     (Inl \<lparr>reason = CantApplyFlex, flexName = ''A''\<rparr>, exampleManager)"
proof -
  have l: "lookupFlex (allFlexes exampleManager) ''A'' = Some flexA"
    by (simp add: exampleManager_def makeFlexagonManager_def exampleFlexes_def lookupFlex_def)
  have f: "flexagon exampleManager =
      [Leaf 1, Group [Leaf 2, Leaf 3], Leaf 4, Group [Leaf 5, Leaf 6]]"
    by (simp add: exampleManager_def makeFlexagonManager_def)
  have c: "Flex_createPattern flexA (flexagon exampleManager) =
     [Group [Leaf 1, Leaf 7], Group [Leaf 2, Leaf 3], Leaf 4, Group [Leaf 5, Leaf 6]]"
    by (simp add: f flexA_def)
  have n: "''A'' = [] \<or> last ''A'' \<noteq> CHR ''+''" by simp
  from applyFlex_generate [of exampleManager "''A''" flexA "''A''"] l n
  have g: "applyFlex exampleManager (''A'' @ ''+'') =
        (case Flex_apply flexA (Flex_createPattern flexA (flexagon exampleManager)) of
           Inl err \<Rightarrow> (Inl \<lparr>reason = CantApplyFlex, flexName = ''A''\<rparr>, exampleManager)
         | Inr result \<Rightarrow>
             (Inr True,
              exampleManager\<lparr>flexagon := result,
                history := History_add [''A'' @ ''+''] result (history exampleManager)\<rparr>))"
    and d: "applyFlex exampleManager ''A'' =
        (case Flex_apply flexA (flexagon exampleManager) of
           Inl err \<Rightarrow> (Inl \<lparr>reason = CantApplyFlex, flexName = ''A''\<rparr>, exampleManager)
         | Inr result \<Rightarrow>
             (Inr True,
              exampleManager\<lparr>flexagon := result,
                history := History_add [''A''] result (history exampleManager)\<rparr>))"
    by blast+
  from g have g': "applyFlex exampleManager ''A+'' =
     (Inr True,
      exampleManager\<lparr>flexagon :=
          [Leaf 1, Group [Leaf 7, Group [Leaf 2, Leaf 3]], Leaf 4, Group [Leaf 5, Leaf 6]],
        history := History_add [''A+'']
          [Leaf 1, Group [Leaf 7, Group [Leaf 2, Leaf 3]], Leaf 4, Group [Leaf 5, Leaf 6]]
          (history exampleManager)\<rparr>)"
    by (simp add: c) (simp add: flexA_def)
  from d have d': "applyFlex exampleManager ''A'' =
     (Inl \<lparr>reason = CantApplyFlex, flexName = ''A''\<rparr>, exampleManager)"
    by (simp add: f) (simp add: flexA_def)
  from l c g' d' show ?thesis by blast
qed

section \<open>Properties of addAndConsolidate\<close>

lemma copyAcross_append: "copyAcross acc xs = acc @ xs"
  by (induction xs arbitrary: acc) auto

lemma addNew_not_start: "addNew acc False xs = acc @ xs"
  by (induction xs arbitrary: acc) auto

lemma cancels_junctionPair: "cancels flex lst \<longleftrightarrow> junctionPair lst flex"
  by (auto simp: cancels_def junctionPair_def)

lemma cancels_empty: "\<not> cancels flex []"
  by (simp add: cancels_def)

text \<open>
  The second loop started on any list: some number \<open>k\<close> of leading new flexes cancel
  against the last \<open>k\<close> elements of the list, one pair at a time from the junction
  outwards, and the first pair that does not cancel ends the cancelling for good.
\<close>

lemma addNew_start_junction:
  "\<exists>k. k \<le> length acc \<and> k \<le> length xs \<and>
     addNew acc True xs = take (length acc - k) acc @ drop k xs \<and>
     (\<forall>i<k. junctionPair (acc ! (length acc - 1 - i)) (xs ! i)) \<and>
     (k < length acc \<and> k < length xs \<longrightarrow>
        \<not> junctionPair (acc ! (length acc - 1 - k)) (xs ! k))"
proof (induction xs arbitrary: acc)
  case Nil
  show ?case by (intro exI [of _ 0]) simp
next
  case (Cons flex rest)
  show ?case
  proof (cases "acc \<noteq> [] \<and> cancels flex (last acc)")
    case True
    then have ne: "acc \<noteq> []" and c: "cancels flex (last acc)" by simp_all
    from Cons.IH [of "butlast acc"] obtain k where
      k1: "k \<le> length (butlast acc)" and k2: "k \<le> length rest" and
      eq: "addNew (butlast acc) True rest =
             take (length (butlast acc) - k) (butlast acc) @ drop k rest" and
      pairs: "\<forall>i<k. junctionPair (butlast acc ! (length (butlast acc) - 1 - i)) (rest ! i)" and
      stop: "k < length (butlast acc) \<and> k < length rest \<longrightarrow>
               \<not> junctionPair (butlast acc ! (length (butlast acc) - 1 - k)) (rest ! k)"
      by blast
    have nth_bl: "\<And>j. j < length acc - 1 \<Longrightarrow> butlast acc ! j = acc ! j"
      by (simp add: nth_butlast)
    have a: "Suc k \<le> length acc" using k1 ne by (cases acc rule: rev_cases) simp_all
    have b: "Suc k \<le> length (flex # rest)" using k2 by simp
    have step: "addNew acc True (flex # rest) = addNew (butlast acc) True rest"
      using ne c by simp
    have tk: "take (length (butlast acc) - k) (butlast acc) = take (length acc - Suc k) acc"
      using ne by (simp add: take_butlast)
    have c': "addNew acc True (flex # rest) =
        take (length acc - Suc k) acc @ drop (Suc k) (flex # rest)"
      using step eq tk by simp
    have d: "\<forall>i<Suc k. junctionPair (acc ! (length acc - 1 - i)) ((flex # rest) ! i)"
    proof (intro allI impI)
      fix i assume i: "i < Suc k"
      show "junctionPair (acc ! (length acc - 1 - i)) ((flex # rest) ! i)"
      proof (cases i)
        case 0
        then show ?thesis using c ne by (simp add: cancels_junctionPair last_conv_nth)
      next
        case (Suc j)
        then have j: "j < k" using i by simp
        then have "junctionPair (butlast acc ! (length (butlast acc) - 1 - j)) (rest ! j)"
          using pairs by blast
        moreover have "length (butlast acc) - 1 - j < length acc - 1" using j k1 by simp
        ultimately show ?thesis using Suc by (simp add: nth_bl)
      qed
    qed
    have e: "Suc k < length acc \<and> Suc k < length (flex # rest) \<longrightarrow>
               \<not> junctionPair (acc ! (length acc - 1 - Suc k)) ((flex # rest) ! Suc k)"
    proof (intro impI)
      assume h: "Suc k < length acc \<and> Suc k < length (flex # rest)"
      then have "k < length (butlast acc) \<and> k < length rest" by auto
      then have "\<not> junctionPair (butlast acc ! (length (butlast acc) - 1 - k)) (rest ! k)"
        using stop by blast
      moreover have "length (butlast acc) - 1 - k < length acc - 1" using h by auto
      ultimately show "\<not> junctionPair (acc ! (length acc - 1 - Suc k)) ((flex # rest) ! Suc k)"
        by (simp add: nth_bl)
    qed
    show ?thesis using a b c' d e by blast
  next
    case False
    then have step: "addNew acc True (flex # rest) = acc @ flex # rest"
      by (auto simp: addNew_not_start cancels_empty)
    have "0 < length acc \<and> 0 < length (flex # rest) \<longrightarrow>
            \<not> junctionPair (acc ! (length acc - 1 - 0)) ((flex # rest) ! 0)"
      using False by (auto simp: cancels_junctionPair last_conv_nth)
    then show ?thesis using step by (intro exI [of _ 0]) simp
  qed
qed

text \<open>
  Claim C10: \<^verbatim>\<open>addAndConsolidate(oldFlexes, newFlexes)\<close> is \<^verbatim>\<open>oldFlexes\<close> without its
  last \<open>k\<close> elements followed by \<^verbatim>\<open>newFlexes\<close> without its first \<open>k\<close> elements, for some
  \<open>k\<close>; each of the \<open>k\<close> cancelled pairs (the \<open>i\<close>-th old element from the end, the \<open>i\<close>-th new
  element) is \<^verbatim>\<open>('>', '<')\<close>, \<^verbatim>\<open>('<', '>')\<close> or \<^verbatim>\<open>('^', '^')\<close>; and the pair after them, when
  both lists have one, does not cancel, so every new element from there on is appended
  unchanged.
\<close>

theorem addAndConsolidate_junction:
  "\<exists>k. k \<le> length oldFlexes \<and> k \<le> length newFlexes \<and>
     addAndConsolidate oldFlexes newFlexes =
       take (length oldFlexes - k) oldFlexes @ drop k newFlexes \<and>
     (\<forall>i<k. junctionPair (oldFlexes ! (length oldFlexes - 1 - i)) (newFlexes ! i)) \<and>
     (k < length oldFlexes \<and> k < length newFlexes \<longrightarrow>
        \<not> junctionPair (oldFlexes ! (length oldFlexes - 1 - k)) (newFlexes ! k))"
  unfolding addAndConsolidate_def copyAcross_append append_Nil
  by (rule addNew_start_junction)

text \<open>
  The theorem alone fixes the result on \<^verbatim>\<open>['P', '>', '^']\<close> and
  \<^verbatim>\<open>['^', '<', '<', '>']\<close>: two pairs cancel, the third does not, and the inverse pair
  \<^verbatim>\<open>'<', '>'\<close> further on in the new flexes stays.
\<close>

theorem addAndConsolidate_junction_witness:
  "addAndConsolidate [''P'', ''>'', ''^''] [''^'', ''<'', ''<'', ''>''] = [''P'', ''<'', ''>'']"
proof -
  let ?old = "[''P'', ''>'', ''^'']" and ?new = "[''^'', ''<'', ''<'', ''>'']"
  from addAndConsolidate_junction [of ?old ?new] obtain k where
    k: "k \<le> length ?old" and
    eq: "addAndConsolidate ?old ?new = take (length ?old - k) ?old @ drop k ?new" and
    pairs: "\<forall>i<k. junctionPair (?old ! (length ?old - 1 - i)) (?new ! i)" and
    stop: "k < length ?old \<and> k < length ?new \<longrightarrow>
             \<not> junctionPair (?old ! (length ?old - 1 - k)) (?new ! k)"
    by blast
  have p0: "junctionPair (?old ! (length ?old - 1 - 0)) (?new ! 0)"
    and p1: "junctionPair (?old ! (length ?old - 1 - 1)) (?new ! 1)"
    and p2: "\<not> junctionPair (?old ! (length ?old - 1 - 2)) (?new ! 2)"
    by (simp_all add: junctionPair_def)
  from k have "k = 0 \<or> k = 1 \<or> k = 2 \<or> k = 3" by auto
  then have "k = 2"
  proof (elim disjE)
    assume "k = 0" with stop p0 show ?thesis by simp
  next
    assume "k = 1" with stop p1 show ?thesis by simp
  next
    assume "k = 2" then show ?thesis .
  next
    assume "k = 3"
    then have "(2::nat) < k" by simp
    with pairs have "junctionPair (?old ! (length ?old - 1 - 2)) (?new ! 2)" by blast
    with p2 show ?thesis by simp
  qed
  with eq show ?thesis by (simp add: numeral_2_eq_2)
qed

text \<open>
  With no old flexes there is nothing to cancel against: the comparison is with the
  empty string, and the new flexes come back as they are.
\<close>

theorem addAndConsolidate_empty_old: "addAndConsolidate [] newFlexes = newFlexes"
proof (cases newFlexes)
  case Nil
  then show ?thesis by (simp add: addAndConsolidate_def)
next
  case (Cons flex rest)
  then show ?thesis
    by (simp add: addAndConsolidate_def cancels_empty addNew_not_start)
qed

section \<open>Properties of the tracker\<close>

text \<open>
  The model answers the other two tests of the tracker as they expect: a flexagon seen
  before is found again and a new one is added once, and \<^verbatim>\<open>[-1, -4, -3, -2]\<close> is
  \<^verbatim>\<open>[1, 2, 3, 4]\<close> turned over.
\<close>

lemma tracker_seen_before:
  "(let flexagon1 = [Group [Leaf 1, Leaf 2], Leaf 3, Group [Leaf 4, Leaf 5], Leaf 6];
        flexagon2 = [Leaf 1, Group [Leaf 2, Leaf 3], Leaf 4, Group [Leaf 5, Leaf 6]];
        tracker0 = newTracker flexagon1;
        (r1, tracker1) = findMaybeAdd tracker0 flexagon1;
        (r2, tracker2) = findMaybeAdd tracker1 flexagon2;
        (r3, tracker3) = findMaybeAdd tracker2 flexagon1;
        (r4, tracker4) = findMaybeAdd tracker3 flexagon2
    in getTotalStates tracker0 = 1 \<and>
       r1 = Some 0 \<and> getTotalStates tracker1 = 1 \<and>
       r2 = None \<and> getTotalStates tracker2 = 2 \<and>
       r3 = Some 0 \<and> getTotalStates tracker3 = 2 \<and>
       r4 = Some 1 \<and> getTotalStates tracker4 = 2)"
  by (simp add: newTracker_def findMaybeAdd_def getTotalStates_def canonicalKey_def
      symmetryImages_def encoding_def turnOver_def reflect_def upt_rec rotate_def Let_def)

lemma tracker_turned_over:
  "(let tracker0 = newTracker [Leaf 1, Leaf 2, Leaf 3, Leaf 4];
        (r1, tracker1) = findMaybeAdd tracker0 [Leaf 1, Leaf 2, Leaf 3, Leaf 4];
        (r2, tracker2) = findMaybeAdd tracker1 [Leaf (- 1), Leaf (- 4), Leaf (- 3), Leaf (- 2)]
    in r1 = Some 0 \<and> getTotalStates tracker1 = 1 \<and>
       r2 = Some 0 \<and> getTotalStates tracker2 = 1)"
  by (simp add: newTracker_def findMaybeAdd_def getTotalStates_def canonicalKey_def
      symmetryImages_def encoding_def turnOver_def reflect_def upt_rec rotate_def Let_def)

text \<open>
  Claim C5: a tracker started on \<^verbatim>\<open>[[1, 2], 3, [4, 5], 6]\<close> finds that flexagon, its
  rotation \<^verbatim>\<open>[[4, 5], 6, [1, 2], 3]\<close> and its turned and rotated
  \<^verbatim>\<open>[-3, [-2, -1], -6, [-5, -4]]\<close> at index 0, and holds one state after each call.
\<close>

theorem tracker_rotated_flipped:
  "(let flexagon0 = [Group [Leaf 1, Leaf 2], Leaf 3, Group [Leaf 4, Leaf 5], Leaf 6];
        rotated = [Group [Leaf 4, Leaf 5], Leaf 6, Group [Leaf 1, Leaf 2], Leaf 3];
        flipped = [Leaf (- 3), Group [Leaf (- 2), Leaf (- 1)], Leaf (- 6),
                   Group [Leaf (- 5), Leaf (- 4)]];
        tracker0 = newTracker flexagon0;
        (r1, tracker1) = findMaybeAdd tracker0 flexagon0;
        (r2, tracker2) = findMaybeAdd tracker1 rotated;
        (r3, tracker3) = findMaybeAdd tracker2 flipped
    in getTotalStates tracker0 = 1 \<and>
       r1 = Some 0 \<and> getTotalStates tracker1 = 1 \<and>
       r2 = Some 0 \<and> getTotalStates tracker2 = 1 \<and>
       r3 = Some 0 \<and> getTotalStates tracker3 = 1)"
  by (simp add: newTracker_def findMaybeAdd_def getTotalStates_def canonicalKey_def
      symmetryImages_def encoding_def turnOver_def reflect_def upt_rec rotate_def Let_def)

section \<open>Properties of the atomic formulas\<close>

text \<open>
  The model gives what the test expects where the formula needs the base flexes only:
  \<^verbatim>\<open>>\<close> as the inverse of \<^verbatim>\<open><\<close>, the two turns together, \<^verbatim>\<open>Ub\<close>, \<^verbatim>\<open>Ux\<close> and \<^verbatim>\<open>Xr\<close>.
\<close>

lemma formulas_of_the_base_flexes:
  "runFormula (''<'' @ [CHR 0x27]) ''a / 1 < b'' = Inr ''a 1 < / b''"
  "runFormula ''^~'' ''a / b'' = Inr ''b / a''"
  "runFormula ''^ Ur ^'' ''a [2,-1] > / b'' = Inr ''-a 1 > 2 < / b''"
  "runFormula ''^~ Ur ~^'' ''a [-2,1] < / b'' = Inr ''-a 2 < 1 > / b''"
  "runFormula ''Ur> ^Ur'^'' ''a 1 > / [-3,2] > b'' = Inr ''-a [2,-1] > / 3 > -b''"
  by code_simp+

text \<open>
  Claim C3, with the two strings the way the test passes them: the formula
  \<^verbatim>\<open>~ Ur ~\<close> (the flex \<^verbatim>\<open>Ul\<close>) applied to the input \<^verbatim>\<open>a / [1,-2] < b\<close> succeeds and
  gives exactly \<^verbatim>\<open>a / 1 > 2 < -b\<close>.
\<close>

theorem formula_Ul_unfolds:
  "runFormula ''~ Ur ~'' ''a / [1,-2] < b'' = Inr ''a / 1 > 2 < -b''"
  by code_simp

text \<open>
  Claim C3 as stated takes \<^verbatim>\<open>a / 1 > 2 < -b\<close> for the input. There the formula cannot be
  applied: after \<^verbatim>\<open>~\<close> the pat at the vertex is the single leaf \<^verbatim>\<open>-1\<close> with the
  direction \<^verbatim>\<open><\<close>, and \<^verbatim>\<open>Ur\<close> needs a folded pair with the direction \<^verbatim>\<open>>\<close>.
\<close>

theorem formula_Ul_counterexample:
  "runFormula ''~ Ur ~'' ''a / 1 > 2 < -b'' = Inl (CannotApply DirectionMismatch) \<and>
   runFormula ''~ Ur ~'' ''a / 1 > 2 < -b'' \<noteq> Inr ''a / [1,-2] < b''"
  by code_simp

end
